theory Spec2Isabelle
  imports Main "HOL-Library.Word"
begin

unbundle bit_operations_syntax

section \<open>I2CMiniPrefs: the storage engine of \<^verbatim>\<open>I2CMiniPrefs.cpp\<close>\<close>

text \<open>
  The model follows the source function by function. Conventions:
  \<^item> A device byte is an \<open>8 word\<close>. Every other integer of the source (\<^verbatim>\<open>uint8_t\<close>,
    \<^verbatim>\<open>uint16_t\<close>, \<^verbatim>\<open>uint32_t\<close>, \<^verbatim>\<open>size_t\<close>) is a \<open>nat\<close>, and each truncation the C++
    performs on assignment or on parameter passing is written out as \<open>mod 256\<close>,
    \<open>mod 65536\<close> or \<open>mod 2 ^ 32\<close>. Comparisons that C++ evaluates after integer
    promotion are evaluated on \<open>nat\<close> with no truncation.
  \<^item> The device is a total function from the 16-bit address space to bytes; the transport
    takes \<^verbatim>\<open>uint16_t\<close> addresses, so every access is reduced \<open>mod 65536\<close>.
  \<^item> A C string argument is a byte list; the string it denotes is the prefix before the
    first zero byte (\<open>cstr\<close>).
  \<^item> A loop of the source that may run forever (the entry walks, whose step is read from
    the device) is a \<^theory_text>\<open>partial_function (option)\<close>: \<open>None\<close> is "does not return".
    The same value is used where the source has undefined behaviour (a write past a
    stack buffer, a division by zero).
  \<^item> The three header structs are laid out as the 32-bit toolchains of the ESP32 family
    (the platform the library is written for) lay them out: \<^verbatim>\<open>uint16_t\<close> members are
    2-aligned. The bytes of the padding are not determined by the source; whenever a
    struct is written to the device they are drawn from the stream \<open>junk\<close>, about which
    nothing is assumed.
\<close>

subsection \<open>Constants and data types\<close>

type_synonym byte = "8 word"

definition PREFS_MAGIC :: byte where "PREFS_MAGIC = 0xA5"
definition PREFS_VERSION :: byte where "PREFS_VERSION = 0x01"

definition BLOCK_STATUS_EMPTY :: byte where "BLOCK_STATUS_EMPTY = 0x00"
definition BLOCK_STATUS_ACTIVE :: byte where "BLOCK_STATUS_ACTIVE = 0x01"
definition BLOCK_STATUS_VALID :: byte where "BLOCK_STATUS_VALID = 0x02"
definition BLOCK_STATUS_INVALID :: byte where "BLOCK_STATUS_INVALID = 0x03"

datatype PrefDataType =
    TYPE_NONE | TYPE_BOOL | TYPE_CHAR | TYPE_UCHAR | TYPE_SHORT | TYPE_USHORT
  | TYPE_INT | TYPE_UINT | TYPE_LONG | TYPE_ULONG | TYPE_LONG64 | TYPE_ULONG64
  | TYPE_FLOAT | TYPE_DOUBLE | TYPE_STRING | TYPE_BYTES

text \<open>The enumerators count from 0 in declaration order (\<^verbatim>\<open>enum PrefDataType : uint8_t\<close>).\<close>

fun type_code :: "PrefDataType \<Rightarrow> byte" where
  "type_code TYPE_NONE = 0"
| "type_code TYPE_BOOL = 1"
| "type_code TYPE_CHAR = 2"
| "type_code TYPE_UCHAR = 3"
| "type_code TYPE_SHORT = 4"
| "type_code TYPE_USHORT = 5"
| "type_code TYPE_INT = 6"
| "type_code TYPE_UINT = 7"
| "type_code TYPE_LONG = 8"
| "type_code TYPE_ULONG = 9"
| "type_code TYPE_LONG64 = 10"
| "type_code TYPE_ULONG64 = 11"
| "type_code TYPE_FLOAT = 12"
| "type_code TYPE_DOUBLE = 13"
| "type_code TYPE_STRING = 14"
| "type_code TYPE_BYTES = 15"

text \<open>
  \<^verbatim>\<open>struct GlobalHeader\<close>: magic at 0, version at 1, totalBlocks at 2..3, activeBlockIndex
  at 4..5, checksum at 6, one byte of padding at 7.
\<close>

record GlobalHeader =
  gh_magic :: byte
  gh_version :: byte
  gh_totalBlocks :: nat
  gh_activeBlockIndex :: nat
  gh_checksum :: byte

definition GLOBAL_HEADER_SIZE :: nat where "GLOBAL_HEADER_SIZE = 8"

text \<open>
  \<^verbatim>\<open>struct BlockHeader\<close>: status at 0, padding at 1, currentOffset at 2..3, checksum at 4,
  padding at 5.
\<close>

record BlockHeader =
  bh_status :: byte
  bh_currentOffset :: nat
  bh_checksum :: byte

definition BLOCK_HEADER_SIZE :: nat where "BLOCK_HEADER_SIZE = 6"

text \<open>
  \<^verbatim>\<open>struct EntryHeader\<close>: status at 0, dataType at 1, keyHash at 2..3, keyLength at 4,
  padding at 5, valueLength at 6..7.
\<close>

record EntryHeader =
  eh_status :: byte
  eh_dataType :: byte
  eh_keyHash :: nat
  eh_keyLength :: nat
  eh_valueLength :: nat

definition ENTRY_HEADER_SIZE :: nat where "ENTRY_HEADER_SIZE = 8"

text \<open>
  The object \<^verbatim>\<open>I2CMiniPrefs\<close> together with the device it talks to. \<open>mem\<close> is the content
  of the device, \<open>wlog\<close> the single-byte write transactions issued so far (newest first),
  \<open>junk\<close> the stream of indeterminate padding bytes, \<open>deviceAck\<close> whether the device
  answers the probe of \<^verbatim>\<open>begin\<close>. The members \<^verbatim>\<open>_memoryType\<close>, \<^verbatim>\<open>_i2cAddress\<close>, \<^verbatim>\<open>_sdaPin\<close> and
  \<^verbatim>\<open>_sclPin\<close> only select bus parameters and write delays and are left out.
\<close>

record prefs =
  mem :: "nat \<Rightarrow> byte"
  wlog :: "(nat \<times> byte) list"
  junk :: "nat \<Rightarrow> byte"
  deviceAck :: bool
  isInitialized :: bool
  totalMemoryBytes :: nat
  blockSizeBytes :: nat
  maxKeyLength :: nat
  maxValueLength :: nat
  totalBlocks :: nat
  activeBlockIndex :: nat

text \<open>The constructor; the parameter types truncate the arguments.\<close>

definition I2CMiniPrefs ::
  "(nat \<Rightarrow> byte) \<Rightarrow> (nat \<Rightarrow> byte) \<Rightarrow> bool \<Rightarrow> nat \<Rightarrow> nat \<Rightarrow> nat \<Rightarrow> nat \<Rightarrow> prefs" where
  "I2CMiniPrefs device padding ack totalMemoryBits blockSize maxKeyLen maxValueLen =
     \<lparr> mem = device, wlog = [], junk = padding, deviceAck = ack,
       isInitialized = False,
       totalMemoryBytes = (totalMemoryBits mod 2 ^ 32) div 8,
       blockSizeBytes = blockSize mod 65536,
       maxKeyLength = maxKeyLen mod 256,
       maxValueLength = maxValueLen mod 65536,
       totalBlocks = 0,
       activeBlockIndex = 0 \<rparr>"

subsection \<open>C strings and little-endian fields\<close>

definition cstr :: "byte list \<Rightarrow> byte list" where
  "cstr key = takeWhile (\<lambda>c. c \<noteq> 0) key"

definition strlen :: "byte list \<Rightarrow> nat" where
  "strlen key = length (cstr key)"

definition lo8 :: "nat \<Rightarrow> byte" where "lo8 n = of_nat (n mod 256)"
definition hi8 :: "nat \<Rightarrow> byte" where "hi8 n = of_nat ((n div 256) mod 256)"
definition u16 :: "byte \<Rightarrow> byte \<Rightarrow> nat" where "u16 lo hi = unat lo + 256 * unat hi"

subsection \<open>I2C hardware layer\<close>

definition i2c_write_byte :: "prefs \<Rightarrow> nat \<Rightarrow> byte \<Rightarrow> prefs" where
  "i2c_write_byte s address d =
     s\<lparr> mem := (mem s)(address mod 65536 := d),
        wlog := (address mod 65536, d) # wlog s \<rparr>"

definition i2c_read_byte :: "prefs \<Rightarrow> nat \<Rightarrow> byte" where
  "i2c_read_byte s address = mem s (address mod 65536)"

fun i2c_write_bytes :: "prefs \<Rightarrow> nat \<Rightarrow> byte list \<Rightarrow> prefs" where
  "i2c_write_bytes s address [] = s"
| "i2c_write_bytes s address (d # ds) =
     i2c_write_bytes (i2c_write_byte s address d) (address + 1) ds"

fun i2c_read_bytes :: "prefs \<Rightarrow> nat \<Rightarrow> nat \<Rightarrow> byte list" where
  "i2c_read_bytes s address 0 = []"
| "i2c_read_bytes s address (Suc len) =
     mem s (address mod 65536) # i2c_read_bytes s (address + 1) len"

text \<open>Drawing \<open>n\<close> padding bytes.\<close>

definition padding :: "prefs \<Rightarrow> nat \<Rightarrow> byte" where
  "padding s i = junk s i"

definition drop_padding :: "nat \<Rightarrow> prefs \<Rightarrow> prefs" where
  "drop_padding n s = s\<lparr> junk := (\<lambda>i. junk s (i + n)) \<rparr>"

subsection \<open>Core algorithms\<close>

definition crc8_bit :: "byte \<Rightarrow> byte" where
  "crc8_bit crc = (if crc AND 0x80 \<noteq> 0 then push_bit 1 crc XOR 0x07 else push_bit 1 crc)"

fun crc8_shift :: "nat \<Rightarrow> byte \<Rightarrow> byte" where
  "crc8_shift 0 crc = crc"
| "crc8_shift (Suc j) crc = crc8_shift j (crc8_bit crc)"

fun crc8_loop :: "byte \<Rightarrow> byte list \<Rightarrow> byte" where
  "crc8_loop crc [] = crc"
| "crc8_loop crc (d # ds) = crc8_loop (crc8_shift 8 (crc XOR d)) ds"

definition calculateCrc8 :: "byte list \<Rightarrow> byte" where
  "calculateCrc8 bs = crc8_loop 0x00 bs"

fun hashKey_loop :: "nat \<Rightarrow> byte list \<Rightarrow> nat" where
  "hashKey_loop hash [] = hash"
| "hashKey_loop hash (c # cs) = hashKey_loop ((push_bit 5 hash + hash + unat c) mod 65536) cs"

definition hashKey :: "byte list \<Rightarrow> nat" where
  "hashKey key = hashKey_loop 5381 (cstr key)"

definition getBlockAddress :: "prefs \<Rightarrow> nat \<Rightarrow> nat" where
  "getBlockAddress s blockIndex =
     (GLOBAL_HEADER_SIZE + blockIndex * blockSizeBytes s) mod 65536"

text \<open>The byte images of the three structs.\<close>

definition global_fields :: "GlobalHeader \<Rightarrow> byte list" where
  "global_fields h =
     [gh_magic h, gh_version h, lo8 (gh_totalBlocks h), hi8 (gh_totalBlocks h),
      lo8 (gh_activeBlockIndex h), hi8 (gh_activeBlockIndex h), gh_checksum h]"

definition decode_global :: "byte list \<Rightarrow> GlobalHeader" where
  "decode_global bs =
     \<lparr> gh_magic = bs ! 0, gh_version = bs ! 1,
       gh_totalBlocks = u16 (bs ! 2) (bs ! 3),
       gh_activeBlockIndex = u16 (bs ! 4) (bs ! 5),
       gh_checksum = bs ! 6 \<rparr>"

definition decode_block :: "byte list \<Rightarrow> BlockHeader" where
  "decode_block bs =
     \<lparr> bh_status = bs ! 0, bh_currentOffset = u16 (bs ! 2) (bs ! 3), bh_checksum = bs ! 4 \<rparr>"

definition decode_entry :: "byte list \<Rightarrow> EntryHeader" where
  "decode_entry bs =
     \<lparr> eh_status = bs ! 0, eh_dataType = bs ! 1, eh_keyHash = u16 (bs ! 2) (bs ! 3),
       eh_keyLength = unat (bs ! 4), eh_valueLength = u16 (bs ! 6) (bs ! 7) \<rparr>"

definition block_crc_data :: "BlockHeader \<Rightarrow> byte list" where
  "block_crc_data h = [bh_status h, lo8 (bh_currentOffset h), hi8 (bh_currentOffset h)]"

text \<open>
  \<^verbatim>\<open>_readGlobalHeader\<close>: the checksum is compared with the CRC of the first
  \<^verbatim>\<open>sizeof(GlobalHeader) - 1\<close> bytes of the struct.
\<close>

definition readGlobalHeader :: "prefs \<Rightarrow> bool \<times> GlobalHeader" where
  "readGlobalHeader s =
     (let bs = i2c_read_bytes s 0 GLOBAL_HEADER_SIZE; header = decode_global bs
      in (gh_magic header = PREFS_MAGIC \<and> gh_version header = PREFS_VERSION \<and>
          calculateCrc8 (take (GLOBAL_HEADER_SIZE - 1) bs) = gh_checksum header,
          header))"

definition writeGlobalHeader :: "prefs \<Rightarrow> GlobalHeader \<Rightarrow> bool \<times> prefs" where
  "writeGlobalHeader s header =
     (let crc = calculateCrc8 (take (GLOBAL_HEADER_SIZE - 1) (global_fields header @ [padding s 0]));
          tempHeader = header\<lparr> gh_checksum := crc \<rparr>
      in (True, i2c_write_bytes (drop_padding 1 s) 0 (global_fields tempHeader @ [padding s 0])))"

definition readBlockHeader :: "prefs \<Rightarrow> nat \<Rightarrow> bool \<times> BlockHeader" where
  "readBlockHeader s blockIndex =
     (let addr = getBlockAddress s blockIndex;
          header = decode_block (i2c_read_bytes s addr BLOCK_HEADER_SIZE)
      in (calculateCrc8 (block_crc_data header) = bh_checksum header, header))"

definition writeBlockHeader :: "prefs \<Rightarrow> nat \<Rightarrow> BlockHeader \<Rightarrow> bool \<times> prefs" where
  "writeBlockHeader s blockIndex header =
     (let addr = getBlockAddress s blockIndex;
          crc = calculateCrc8 (block_crc_data header)
      in (True, i2c_write_bytes (drop_padding 2 s) addr
            [bh_status header, padding s 0, lo8 (bh_currentOffset header),
             hi8 (bh_currentOffset header), crc, padding s 1]))"


definition read_entry_header :: "prefs \<Rightarrow> nat \<Rightarrow> EntryHeader" where
  "read_entry_header s addr = decode_entry (i2c_read_bytes s addr ENTRY_HEADER_SIZE)"

text \<open>
  The entry walk of \<^verbatim>\<open>_findEntry\<close> inside one block. The result \<open>Some (Some r)\<close> is the
  \<^verbatim>\<open>return entryHeaderAddr\<close> of the source together with its three output parameters,
  \<open>Some None\<close> is the normal end of the \<^verbatim>\<open>while\<close> loop. The buffer \<^verbatim>\<open>readKey\<close> has
  \<^verbatim>\<open>_maxKeyLength + 1\<close> bytes; filling it with a longer key is undefined behaviour.
\<close>

type_synonym found = "nat \<times> nat \<times> nat \<times> byte"

partial_function (option) findInBlock ::
  "prefs \<Rightarrow> byte list \<Rightarrow> nat \<Rightarrow> nat \<Rightarrow> nat \<Rightarrow> found option option" where
  "findInBlock s key blockStartAddr blockCurrentOffset currentEntryOffset =
     (if currentEntryOffset < blockCurrentOffset then
        (let entryHeaderAddr = (blockStartAddr + currentEntryOffset) mod 65536;
             entryHeader = read_entry_header s entryHeaderAddr;
             nextEntryOffset = (currentEntryOffset +
                (ENTRY_HEADER_SIZE + eh_keyLength entryHeader + eh_valueLength entryHeader)) mod 65536
         in if eh_status entryHeader = 0x00 then
              findInBlock s key blockStartAddr blockCurrentOffset nextEntryOffset
            else if eh_keyHash entryHeader = hashKey key \<and>
                    eh_keyLength entryHeader = strlen key mod 256 then
              (if maxKeyLength s < strlen key mod 256 then None
               else if cstr key =
                    cstr (i2c_read_bytes s (entryHeaderAddr + ENTRY_HEADER_SIZE) (strlen key mod 256))
               then Some (Some (entryHeaderAddr,
                      (entryHeaderAddr + ENTRY_HEADER_SIZE + eh_keyLength entryHeader) mod 65536,
                      eh_valueLength entryHeader, eh_dataType entryHeader))
               else findInBlock s key blockStartAddr blockCurrentOffset nextEntryOffset)
            else findInBlock s key blockStartAddr blockCurrentOffset nextEntryOffset)
      else Some None)"

declare findInBlock.simps [code]

text \<open>
  The loop of \<^verbatim>\<open>_findEntry\<close> over the blocks. "Not found" is the address 0; the output
  parameters are then not assigned and no caller reads them.
\<close>

definition not_found :: found where
  "not_found = (0, 0, 0, 0)"

fun findInBlocks :: "prefs \<Rightarrow> byte list \<Rightarrow> nat list \<Rightarrow> found option" where
  "findInBlocks s key [] = Some not_found"
| "findInBlocks s key (blockIdx # rest) =
     (let (ok, blockHeader) = readBlockHeader s blockIdx
      in if \<not> ok then findInBlocks s key rest
         else if bh_status blockHeader \<noteq> BLOCK_STATUS_ACTIVE \<and>
                 bh_status blockHeader \<noteq> BLOCK_STATUS_VALID then findInBlocks s key rest
         else (case findInBlock s key (getBlockAddress s blockIdx)
                      (bh_currentOffset blockHeader) BLOCK_HEADER_SIZE of
                 None \<Rightarrow> None
               | Some (Some r) \<Rightarrow> Some r
               | Some None \<Rightarrow> findInBlocks s key rest))"

definition findEntry :: "prefs \<Rightarrow> byte list \<Rightarrow> found option" where
  "findEntry s key =
     (if \<not> isInitialized s then Some not_found
      else findInBlocks s key [0..<totalBlocks s])"

definition markEntryAsDeleted :: "prefs \<Rightarrow> nat \<Rightarrow> bool \<times> prefs" where
  "markEntryAsDeleted s entryAddress =
     (if entryAddress = 0 then (False, s)
      else if eh_status (read_entry_header s entryAddress) \<noteq> 0x01 then (False, s)
      else (True, i2c_write_byte s entryAddress 0x00))"

subsection \<open>Garbage collection\<close>

text \<open>The first loop of \<^verbatim>\<open>_runGarbageCollection\<close>; 0xFFFF is its "none found".\<close>

fun findEmptyBlock :: "prefs \<Rightarrow> nat list \<Rightarrow> nat" where
  "findEmptyBlock s [] = 0xFFFF"
| "findEmptyBlock s (i # rest) =
     (let (ok, header) = readBlockHeader s i
      in if ok \<and> bh_status header \<noteq> BLOCK_STATUS_EMPTY then findEmptyBlock s rest else i)"

text \<open>
  The copy loop over the entries of one source block. The result is
  \<open>(continue, state, currentWriteOffset)\<close>; \<open>continue = False\<close> is the \<^verbatim>\<open>return false\<close>
  in the loop body.
\<close>

partial_function (option) gcCopyBlock ::
  "prefs \<Rightarrow> nat \<Rightarrow> nat \<Rightarrow> nat \<Rightarrow> nat \<Rightarrow> nat \<Rightarrow> (bool \<times> prefs \<times> nat) option" where
  "gcCopyBlock s newBlockAddr sourceBlockAddr sourceCurrentOffset currentReadOffset
       currentWriteOffset =
     (if currentReadOffset < sourceCurrentOffset then
        (let entryHeaderAddr = (sourceBlockAddr + currentReadOffset) mod 65536;
             entryHeader = read_entry_header s entryHeaderAddr;
             entryTotalSize = (ENTRY_HEADER_SIZE + eh_keyLength entryHeader +
                                eh_valueLength entryHeader) mod 65536
         in if eh_status entryHeader = 0x01 \<and>
               eh_keyLength entryHeader \<le> maxKeyLength s \<and>
               eh_valueLength entryHeader \<le> maxValueLength s then
              (if currentWriteOffset + entryTotalSize > blockSizeBytes s then
                 Some (False, s, currentWriteOffset)
               else
                 (let entryData = i2c_read_bytes s entryHeaderAddr entryTotalSize;
                      s' = i2c_write_bytes s ((newBlockAddr + currentWriteOffset) mod 65536)
                             entryData
                  in gcCopyBlock s' newBlockAddr sourceBlockAddr sourceCurrentOffset
                       ((currentReadOffset + entryTotalSize) mod 65536)
                       ((currentWriteOffset + entryTotalSize) mod 65536)))
            else
              gcCopyBlock s newBlockAddr sourceBlockAddr sourceCurrentOffset
                ((currentReadOffset + entryTotalSize) mod 65536) currentWriteOffset)
      else Some (True, s, currentWriteOffset))"

declare gcCopyBlock.simps [code]

fun gcCopyBlocks :: "prefs \<Rightarrow> nat \<Rightarrow> nat \<Rightarrow> nat list \<Rightarrow> (bool \<times> prefs \<times> nat) option" where
  "gcCopyBlocks s nextEmptyBlockIndex currentWriteOffset [] =
     Some (True, s, currentWriteOffset)"
| "gcCopyBlocks s nextEmptyBlockIndex currentWriteOffset (blockIdx # rest) =
     (if blockIdx = nextEmptyBlockIndex then
        gcCopyBlocks s nextEmptyBlockIndex currentWriteOffset rest
      else
        (let (ok, sourceBlockHeader) = readBlockHeader s blockIdx
         in if \<not> ok then gcCopyBlocks s nextEmptyBlockIndex currentWriteOffset rest
            else if bh_status sourceBlockHeader \<noteq> BLOCK_STATUS_ACTIVE \<and>
                    bh_status sourceBlockHeader \<noteq> BLOCK_STATUS_VALID then
              gcCopyBlocks s nextEmptyBlockIndex currentWriteOffset rest
            else
              (case gcCopyBlock s (getBlockAddress s nextEmptyBlockIndex)
                      (getBlockAddress s blockIdx) (bh_currentOffset sourceBlockHeader)
                      BLOCK_HEADER_SIZE currentWriteOffset of
                 None \<Rightarrow> None
               | Some (continue, s', w) \<Rightarrow>
                   if \<not> continue then Some (False, s', w)
                   else
                     (let s'' = snd (writeBlockHeader s' blockIdx
                                  (sourceBlockHeader\<lparr> bh_status := BLOCK_STATUS_EMPTY,
                                                       bh_currentOffset := BLOCK_HEADER_SIZE \<rparr>))
                      in gcCopyBlocks s'' nextEmptyBlockIndex w rest))))"

definition demoteActiveBlock :: "prefs \<Rightarrow> prefs" where
  "demoteActiveBlock s =
     (if isInitialized s then
        (let (ok, oldActiveBlockHeader) = readBlockHeader s (activeBlockIndex s)
         in if ok then snd (writeBlockHeader s (activeBlockIndex s)
                              (oldActiveBlockHeader\<lparr> bh_status := BLOCK_STATUS_VALID \<rparr>))
            else s)
      else s)"

definition newActiveBlockHeader :: BlockHeader where
  "newActiveBlockHeader =
     \<lparr> bh_status = BLOCK_STATUS_ACTIVE, bh_currentOffset = BLOCK_HEADER_SIZE, bh_checksum = 0 \<rparr>"

text \<open>
  \<^verbatim>\<open>_runGarbageCollection\<close>, in its phases: the search for the target block, "Mark
  current active block as valid" and "Initialize new active block" (\<open>gcPrepare\<close>),
  "Copy valid entries" (\<open>gcCopyBlocks\<close>), "Finalize new block" and "Update global
  header" (\<open>gcFinalize\<close>).
\<close>

definition gcPrepare :: "prefs \<Rightarrow> nat \<Rightarrow> prefs" where
  "gcPrepare s nextEmptyBlockIndex =
     (let s1 = demoteActiveBlock s
      in snd (writeBlockHeader s1 nextEmptyBlockIndex newActiveBlockHeader))"

definition gcFinalize :: "prefs \<Rightarrow> nat \<Rightarrow> nat \<Rightarrow> bool \<times> prefs" where
  "gcFinalize s nextEmptyBlockIndex currentWriteOffset =
     (let s1 = snd (writeBlockHeader s nextEmptyBlockIndex
                 (newActiveBlockHeader\<lparr> bh_currentOffset := currentWriteOffset \<rparr>));
          s2 = s1\<lparr> activeBlockIndex := nextEmptyBlockIndex \<rparr>
      in writeGlobalHeader s2
           \<lparr> gh_magic = PREFS_MAGIC, gh_version = PREFS_VERSION,
             gh_totalBlocks = totalBlocks s2,
             gh_activeBlockIndex = activeBlockIndex s2,
             gh_checksum = 0 \<rparr>)"

definition runGarbageCollection :: "prefs \<Rightarrow> (bool \<times> prefs) option" where
  "runGarbageCollection s =
     (let nextEmptyBlockIndex = findEmptyBlock s [0..<totalBlocks s]
      in if nextEmptyBlockIndex = 0xFFFF then Some (False, s)
         else
           (let s1 = gcPrepare s nextEmptyBlockIndex
            in case gcCopyBlocks s1 nextEmptyBlockIndex BLOCK_HEADER_SIZE
                      [0..<totalBlocks s] of
                 None \<Rightarrow> None
               | Some (continue, s', currentWriteOffset) \<Rightarrow>
                   if \<not> continue then Some (False, s')
                   else Some (gcFinalize s' nextEmptyBlockIndex currentWriteOffset)))"

subsection \<open>Writing an entry\<close>

text \<open>
  The tail of \<^verbatim>\<open>_writeEntry\<close> ("Write new entry", "Update block header"), which both
  paths of the space check reach with the block header they read last.
\<close>

definition entry_header_bytes :: "prefs \<Rightarrow> byte list \<Rightarrow> PrefDataType \<Rightarrow> nat \<Rightarrow> byte list" where
  "entry_header_bytes s key type valueLen =
     [0x01, type_code type, lo8 (hashKey key), hi8 (hashKey key),
      lo8 (strlen key mod 256), padding s 0, lo8 (valueLen mod 65536), hi8 (valueLen mod 65536)]"

definition appendEntry ::
  "prefs \<Rightarrow> byte list \<Rightarrow> PrefDataType \<Rightarrow> byte list \<Rightarrow> BlockHeader \<Rightarrow> bool \<times> prefs" where
  "appendEntry s key type valueBuf currentBlockHeader =
     (let keyLen = strlen key mod 256;
          valueLen = length valueBuf;
          entryTotalSize = (ENTRY_HEADER_SIZE + keyLen + valueLen) mod 65536;
          entryStartAddr =
            (getBlockAddress s (activeBlockIndex s) + bh_currentOffset currentBlockHeader) mod 65536;
          s1 = i2c_write_bytes (drop_padding 1 s) entryStartAddr
                 (entry_header_bytes s key type valueLen);
          s2 = i2c_write_bytes s1 (entryStartAddr + ENTRY_HEADER_SIZE) (take keyLen key);
          s3 = i2c_write_bytes s2 (entryStartAddr + ENTRY_HEADER_SIZE + keyLen) valueBuf
      in writeBlockHeader s3 (activeBlockIndex s3)
           (currentBlockHeader\<lparr> bh_currentOffset :=
              (bh_currentOffset currentBlockHeader + entryTotalSize) mod 65536 \<rparr>))"

definition writeEntry ::
  "prefs \<Rightarrow> byte list \<Rightarrow> PrefDataType \<Rightarrow> byte list \<Rightarrow> (bool \<times> prefs) option" where
  "writeEntry s key type valueBuf =
     (if \<not> isInitialized s then Some (False, s)
      else if strlen key mod 256 > maxKeyLength s \<or> length valueBuf > maxValueLength s
      then Some (False, s)
      else
        (case findEntry s key of
           None \<Rightarrow> None
         | Some (oldEntryHeaderAddr, oldValueAddr, oldValueLen, oldDataType) \<Rightarrow>
             (let s1 = (if oldEntryHeaderAddr \<noteq> 0
                        then snd (markEntryAsDeleted s oldEntryHeaderAddr) else s);
                  (ok, currentBlockHeader) = readBlockHeader s1 (activeBlockIndex s1)
              in if \<not> (ok \<and> bh_status currentBlockHeader = BLOCK_STATUS_ACTIVE)
                 then Some (False, s1)
                 else if bh_currentOffset currentBlockHeader +
                           (ENTRY_HEADER_SIZE + strlen key mod 256 + length valueBuf) mod 65536
                         > blockSizeBytes s1
                 then
                   (case runGarbageCollection s1 of
                      None \<Rightarrow> None
                    | Some (gcOk, s2) \<Rightarrow>
                        if \<not> gcOk then Some (False, s2)
                        else
                          (let (ok2, currentBlockHeader2) = readBlockHeader s2 (activeBlockIndex s2)
                           in if \<not> (ok2 \<and> bh_status currentBlockHeader2 = BLOCK_STATUS_ACTIVE)
                              then Some (False, s2)
                              else Some (appendEntry s2 key type valueBuf currentBlockHeader2)))
                 else Some (appendEntry s1 key type valueBuf currentBlockHeader))))"

subsection \<open>Public API\<close>

text \<open>
  \<^verbatim>\<open>begin()\<close>. The block count is computed in unsigned 32-bit arithmetic and stored in a
  \<^verbatim>\<open>uint16_t\<close>; a block size of 0 is a division by zero.
\<close>

definition begin_gc :: "prefs \<Rightarrow> (bool \<times> prefs) option" where
  "begin_gc s =
     (case runGarbageCollection s of
        None \<Rightarrow> None
      | Some (gcOk, s') \<Rightarrow>
          if \<not> gcOk then Some (False, s') else Some (True, s'\<lparr> isInitialized := True \<rparr>))"

definition begin_prefs :: "prefs \<Rightarrow> (bool \<times> prefs) option" where
  "begin_prefs s =
     (if \<not> deviceAck s then Some (False, s)
      else if blockSizeBytes s = 0 then None
      else
        (let s1 = s\<lparr> totalBlocks :=
                    (((totalMemoryBytes s + 2 ^ 32 - GLOBAL_HEADER_SIZE) mod 2 ^ 32)
                       div blockSizeBytes s) mod 65536 \<rparr>
         in if totalBlocks s1 = 0 then Some (False, s1)
            else
              (let (valid, globalHeader) = readGlobalHeader s1
               in if \<not> valid then begin_gc s1
                  else
                    (let s2 = s1\<lparr> activeBlockIndex := gh_activeBlockIndex globalHeader \<rparr>;
                         (ok, activeBlockHeader) = readBlockHeader s2 (activeBlockIndex s2)
                     in if \<not> (ok \<and> bh_status activeBlockHeader = BLOCK_STATUS_ACTIVE)
                        then begin_gc s2
                        else Some (True, s2\<lparr> isInitialized := True \<rparr>)))))"

text \<open>
  The scalar values of the typed API, each with the width it has on the ESP32 targets.
  A value is carried by its object representation: an integer by its two's complement
  bit pattern, a \<^verbatim>\<open>float\<close> or \<^verbatim>\<open>double\<close> by its IEEE bit pattern (the library only copies
  the bytes).
\<close>

datatype scalar =
    VBool bool | VChar "8 word" | VUChar "8 word" | VShort "16 word" | VUShort "16 word"
  | VInt "32 word" | VUInt "32 word" | VLong "32 word" | VULong "32 word"
  | VLong64 "64 word" | VULong64 "64 word" | VFloat "32 word" | VDouble "64 word"

fun tag_of :: "scalar \<Rightarrow> PrefDataType" where
  "tag_of (VBool _) = TYPE_BOOL"
| "tag_of (VChar _) = TYPE_CHAR"
| "tag_of (VUChar _) = TYPE_UCHAR"
| "tag_of (VShort _) = TYPE_SHORT"
| "tag_of (VUShort _) = TYPE_USHORT"
| "tag_of (VInt _) = TYPE_INT"
| "tag_of (VUInt _) = TYPE_UINT"
| "tag_of (VLong _) = TYPE_LONG"
| "tag_of (VULong _) = TYPE_ULONG"
| "tag_of (VLong64 _) = TYPE_LONG64"
| "tag_of (VULong64 _) = TYPE_ULONG64"
| "tag_of (VFloat _) = TYPE_FLOAT"
| "tag_of (VDouble _) = TYPE_DOUBLE"

fun sizeof :: "scalar \<Rightarrow> nat" where
  "sizeof (VBool _) = 1"
| "sizeof (VChar _) = 1"
| "sizeof (VUChar _) = 1"
| "sizeof (VShort _) = 2"
| "sizeof (VUShort _) = 2"
| "sizeof (VInt _) = 4"
| "sizeof (VUInt _) = 4"
| "sizeof (VLong _) = 4"
| "sizeof (VULong _) = 4"
| "sizeof (VLong64 _) = 8"
| "sizeof (VULong64 _) = 8"
| "sizeof (VFloat _) = 4"
| "sizeof (VDouble _) = 8"

text \<open>Little-endian object representations.\<close>

fun le_bytes :: "nat \<Rightarrow> nat \<Rightarrow> byte list" where
  "le_bytes 0 x = []"
| "le_bytes (Suc n) x = of_nat (x mod 256) # le_bytes n (x div 256)"

fun le_nat :: "byte list \<Rightarrow> nat" where
  "le_nat [] = 0"
| "le_nat (b # bs) = unat b + 256 * le_nat bs"

fun object_bytes :: "scalar \<Rightarrow> byte list" where
  "object_bytes (VBool b) = [if b then 1 else 0]"
| "object_bytes (VChar c) = [c]"
| "object_bytes (VUChar c) = [c]"
| "object_bytes (VShort w) = le_bytes 2 (unat w)"
| "object_bytes (VUShort w) = le_bytes 2 (unat w)"
| "object_bytes (VInt w) = le_bytes 4 (unat w)"
| "object_bytes (VUInt w) = le_bytes 4 (unat w)"
| "object_bytes (VLong w) = le_bytes 4 (unat w)"
| "object_bytes (VULong w) = le_bytes 4 (unat w)"
| "object_bytes (VLong64 w) = le_bytes 8 (unat w)"
| "object_bytes (VULong64 w) = le_bytes 8 (unat w)"
| "object_bytes (VFloat w) = le_bytes 4 (unat w)"
| "object_bytes (VDouble w) = le_bytes 8 (unat w)"

text \<open>The object of the type of \<open>d\<close> that the bytes \<open>bs\<close> represent.\<close>

fun object_of :: "scalar \<Rightarrow> byte list \<Rightarrow> scalar" where
  "object_of (VBool _) bs = VBool (hd bs \<noteq> 0)"
| "object_of (VChar _) bs = VChar (hd bs)"
| "object_of (VUChar _) bs = VUChar (hd bs)"
| "object_of (VShort _) bs = VShort (of_nat (le_nat bs))"
| "object_of (VUShort _) bs = VUShort (of_nat (le_nat bs))"
| "object_of (VInt _) bs = VInt (of_nat (le_nat bs))"
| "object_of (VUInt _) bs = VUInt (of_nat (le_nat bs))"
| "object_of (VLong _) bs = VLong (of_nat (le_nat bs))"
| "object_of (VULong _) bs = VULong (of_nat (le_nat bs))"
| "object_of (VLong64 _) bs = VLong64 (of_nat (le_nat bs))"
| "object_of (VULong64 _) bs = VULong64 (of_nat (le_nat bs))"
| "object_of (VFloat _) bs = VFloat (of_nat (le_nat bs))"
| "object_of (VDouble _) bs = VDouble (of_nat (le_nat bs))"

text \<open>
  \<^verbatim>\<open>_putValue<T>\<close> and \<^verbatim>\<open>_getValue<T>\<close>; the type \<^verbatim>\<open>T\<close> and the tag the wrappers pass with
  it are those of the value, respectively of the default value. The thirteen scalar
  wrappers \<^verbatim>\<open>putBool\<close> ... \<^verbatim>\<open>putDouble\<close> and \<^verbatim>\<open>getBool\<close> ... \<^verbatim>\<open>getDouble\<close> are the
  instances of these two at the thirteen constructors of \<open>scalar\<close>.
\<close>

definition putValue :: "prefs \<Rightarrow> byte list \<Rightarrow> scalar \<Rightarrow> (bool \<times> prefs) option" where
  "putValue s key v = writeEntry s key (tag_of v) (object_bytes v)"

definition getValue :: "prefs \<Rightarrow> byte list \<Rightarrow> scalar \<Rightarrow> scalar option" where
  "getValue s key defaultValue =
     (case findEntry s key of
        None \<Rightarrow> None
      | Some (entryAddr, valueAddr, valueLen, storedType) \<Rightarrow>
          if entryAddr \<noteq> 0 \<and> storedType = type_code (tag_of defaultValue) \<and>
             valueLen = sizeof defaultValue
          then Some (object_of defaultValue (i2c_read_bytes s valueAddr (sizeof defaultValue)))
          else Some defaultValue)"

definition putBool :: "prefs \<Rightarrow> byte list \<Rightarrow> bool \<Rightarrow> (bool \<times> prefs) option" where
  "putBool s key v = putValue s key (VBool v)"

definition getBool :: "prefs \<Rightarrow> byte list \<Rightarrow> bool \<Rightarrow> scalar option" where
  "getBool s key defaultValue = getValue s key (VBool defaultValue)"

definition putComplexValue ::
  "prefs \<Rightarrow> byte list \<Rightarrow> PrefDataType \<Rightarrow> byte list \<Rightarrow> (bool \<times> prefs) option" where
  "putComplexValue s key type valueBuf = writeEntry s key type valueBuf"

text \<open>\<^verbatim>\<open>_getComplexValue\<close> returns the number of bytes read and the bytes put in \<^verbatim>\<open>buf\<close>.\<close>

definition getComplexValue ::
  "prefs \<Rightarrow> byte list \<Rightarrow> nat \<Rightarrow> PrefDataType \<Rightarrow> (nat \<times> byte list) option" where
  "getComplexValue s key maxLen expectedType =
     (case findEntry s key of
        None \<Rightarrow> None
      | Some (entryAddr, valueAddr, valueLen, type) \<Rightarrow>
          if entryAddr \<noteq> 0 \<and> type = type_code expectedType
          then Some (min valueLen maxLen, i2c_read_bytes s valueAddr (min valueLen maxLen))
          else Some (0, []))"

text \<open>
  \<^verbatim>\<open>putString(const char*, const char*)\<close> for a non-null value, and \<^verbatim>\<open>getString\<close>, whose
  buffer is zero-initialised and one byte longer than what is read into it.
\<close>

definition putString :: "prefs \<Rightarrow> byte list \<Rightarrow> byte list \<Rightarrow> (bool \<times> prefs) option" where
  "putString s key v = putComplexValue s key TYPE_STRING (cstr v @ [0])"

definition getString :: "prefs \<Rightarrow> byte list \<Rightarrow> byte list \<Rightarrow> byte list option" where
  "getString s key defaultValue =
     (case getComplexValue s key (maxValueLength s) TYPE_STRING of
        None \<Rightarrow> None
      | Some (len, buffer) \<Rightarrow> if len > 0 then Some (cstr buffer) else Some (cstr defaultValue))"

definition isKey :: "prefs \<Rightarrow> byte list \<Rightarrow> bool option" where
  "isKey s key =
     (case findEntry s key of
        None \<Rightarrow> None
      | Some (entryAddr, valueAddr, valueLen, type) \<Rightarrow> Some (entryAddr \<noteq> 0))"

definition remove_key :: "prefs \<Rightarrow> byte list \<Rightarrow> (bool \<times> prefs) option" where
  "remove_key s key =
     (case findEntry s key of
        None \<Rightarrow> None
      | Some (entryAddr, valueAddr, valueLen, type) \<Rightarrow>
          if entryAddr \<noteq> 0 then Some (markEntryAsDeleted s entryAddr) else Some (False, s))"

definition clear :: "prefs \<Rightarrow> (bool \<times> prefs) option" where
  "clear s =
     (let s1 = s\<lparr> isInitialized := False, activeBlockIndex := 0 \<rparr>
      in runGarbageCollection s1)"


section \<open>Properties\<close>

subsection \<open>What the operations leave unchanged\<close>

definition same_cfg :: "prefs \<Rightarrow> prefs \<Rightarrow> bool" where
  "same_cfg s s' \<longleftrightarrow>
     deviceAck s' = deviceAck s \<and> isInitialized s' = isInitialized s \<and>
     totalMemoryBytes s' = totalMemoryBytes s \<and> blockSizeBytes s' = blockSizeBytes s \<and>
     maxKeyLength s' = maxKeyLength s \<and> maxValueLength s' = maxValueLength s \<and>
     totalBlocks s' = totalBlocks s"

lemma same_cfg_refl [simp]: "same_cfg s s"
  by (simp add: same_cfg_def)

lemma same_cfg_trans: "same_cfg s s' \<Longrightarrow> same_cfg s' s'' \<Longrightarrow> same_cfg s s''"
  by (simp add: same_cfg_def)

lemma same_cfg_write_byte: "same_cfg s s1 \<Longrightarrow> same_cfg s (i2c_write_byte s1 a d)"
  by (simp add: same_cfg_def i2c_write_byte_def)

lemma active_write_byte [simp]: "activeBlockIndex (i2c_write_byte s a d) = activeBlockIndex s"
  by (simp add: i2c_write_byte_def)

lemma same_cfg_write_bytes: "same_cfg s s1 \<Longrightarrow> same_cfg s (i2c_write_bytes s1 a ds)"
  by (induction ds arbitrary: s1 a) (simp_all add: same_cfg_write_byte)

lemma active_write_bytes [simp]: "activeBlockIndex (i2c_write_bytes s a ds) = activeBlockIndex s"
  by (induction ds arbitrary: s a) simp_all

lemma same_cfg_drop_padding: "same_cfg s s1 \<Longrightarrow> same_cfg s (drop_padding n s1)"
  by (simp add: same_cfg_def drop_padding_def)

lemma active_drop_padding [simp]: "activeBlockIndex (drop_padding n s) = activeBlockIndex s"
  by (simp add: drop_padding_def)

lemma same_cfg_writeBlockHeader:
  "same_cfg s s1 \<Longrightarrow> same_cfg s (snd (writeBlockHeader s1 i h))"
  by (simp add: writeBlockHeader_def Let_def same_cfg_write_bytes same_cfg_drop_padding
        del: i2c_write_bytes.simps)

lemma active_writeBlockHeader [simp]:
  "activeBlockIndex (snd (writeBlockHeader s i h)) = activeBlockIndex s"
  by (simp add: writeBlockHeader_def Let_def del: i2c_write_bytes.simps)

lemma same_cfg_writeGlobalHeader:
  "same_cfg s s1 \<Longrightarrow> same_cfg s (snd (writeGlobalHeader s1 h))"
  by (simp add: writeGlobalHeader_def Let_def same_cfg_write_bytes same_cfg_drop_padding
        del: i2c_write_bytes.simps)

lemma same_cfg_gcCopyBlock:
  assumes "gcCopyBlock s nb sb sco r w = Some y" and "same_cfg s0 s"
  shows "same_cfg s0 (fst (snd y))"
proof -
  have "same_cfg s0 s \<longrightarrow> same_cfg s0 (fst (snd y))"
    by (rule gcCopyBlock.raw_induct
          [OF _ assms(1), where P = "\<lambda>s nb sb sco r w y. same_cfg s0 s \<longrightarrow> same_cfg s0 (fst (snd y))"])
       (auto simp: Let_def same_cfg_write_bytes split: if_splits)
  with assms(2) show ?thesis by simp
qed

lemma same_cfg_gcCopyBlocks:
  "gcCopyBlocks s t w is = Some y \<Longrightarrow> same_cfg s0 s \<Longrightarrow> same_cfg s0 (fst (snd y))"
proof (induction "is" arbitrary: s w)
  case Nil
  then show ?case by auto
next
  case (Cons i "is")
  from Cons.prems show ?case
    by (auto simp: Let_def split: if_splits prod.splits option.splits
          dest!: same_cfg_gcCopyBlock [where ?s0.0 = s0]
          intro!: Cons.IH same_cfg_writeBlockHeader)
qed

lemma same_cfg_demoteActiveBlock: "same_cfg s (demoteActiveBlock s)"
  by (simp add: demoteActiveBlock_def same_cfg_writeBlockHeader split: prod.splits)

lemma same_cfg_gcPrepare: "same_cfg s (gcPrepare s t)"
  unfolding gcPrepare_def Let_def
  by (rule same_cfg_writeBlockHeader) (rule same_cfg_demoteActiveBlock)

lemma same_cfg_gcFinalize: "same_cfg s s1 \<Longrightarrow> same_cfg s (snd (gcFinalize s1 t w))"
proof -
  assume a: "same_cfg s s1"
  have "same_cfg s ((snd (writeBlockHeader s1 t h))\<lparr> activeBlockIndex := t \<rparr>)" for h
    using same_cfg_writeBlockHeader [OF a, of t h] by (simp add: same_cfg_def)
  then show ?thesis
    by (simp add: gcFinalize_def Let_def same_cfg_writeGlobalHeader)
qed

lemma runGarbageCollection_cases:
  assumes "runGarbageCollection s = Some (ok, s')"
  obtains
    (no_target) "findEmptyBlock s [0..<totalBlocks s] = 0xFFFF" "\<not> ok" "s' = s"
  | (no_space) w where "findEmptyBlock s [0..<totalBlocks s] \<noteq> 0xFFFF"
      "gcCopyBlocks (gcPrepare s (findEmptyBlock s [0..<totalBlocks s]))
         (findEmptyBlock s [0..<totalBlocks s]) BLOCK_HEADER_SIZE [0..<totalBlocks s]
       = Some (False, s', w)" "\<not> ok"
  | (collected) s3 w where "findEmptyBlock s [0..<totalBlocks s] \<noteq> 0xFFFF"
      "gcCopyBlocks (gcPrepare s (findEmptyBlock s [0..<totalBlocks s]))
         (findEmptyBlock s [0..<totalBlocks s]) BLOCK_HEADER_SIZE [0..<totalBlocks s]
       = Some (True, s3, w)"
      "(ok, s') = gcFinalize s3 (findEmptyBlock s [0..<totalBlocks s]) w"
  using assms
  by (auto simp: runGarbageCollection_def Let_def split: if_splits option.splits)

lemma same_cfg_runGarbageCollection:
  assumes "runGarbageCollection s = Some (ok, s')"
  shows "same_cfg s s'"
  using assms
proof (cases rule: runGarbageCollection_cases)
  case no_target
  then show ?thesis by simp
next
  case (no_space w)
  from same_cfg_gcCopyBlocks [OF no_space(2) same_cfg_gcPrepare] show ?thesis by simp
next
  case (collected s3 w)
  from same_cfg_gcCopyBlocks [OF collected(2) same_cfg_gcPrepare] have "same_cfg s s3" by simp
  from same_cfg_gcFinalize [OF this, of "findEmptyBlock s [0..<totalBlocks s]" w]
    collected(3) [symmetric] show ?thesis by simp
qed

subsection \<open>Evaluation on concrete stores\<close>

lemma crc8_shift_8:
  "crc8_shift 8 c =
     crc8_bit (crc8_bit (crc8_bit (crc8_bit (crc8_bit (crc8_bit (crc8_bit (crc8_bit c)))))))"
  by (simp add: numeral_eq_Suc)

lemma i2c_read_bytes_numeral:
  "i2c_read_bytes s a (numeral k) =
     mem s (a mod 65536) # i2c_read_bytes s (a + 1) (pred_numeral k)"
  by (simp only: numeral_eq_Suc [of k] i2c_read_bytes.simps)

lemma i2c_read_bytes_1: "i2c_read_bytes s a 1 = [mem s (a mod 65536)]"
  by (simp only: One_nat_def i2c_read_bytes.simps)

lemma upt_0_Suc: "[0..<Suc n] = 0 # map Suc [0..<n]"
  by (simp only: map_Suc_upt upt_conv_Cons [OF zero_less_Suc])

lemma upt_0_numeral: "[0..<numeral k] = 0 # map Suc [0..<pred_numeral k]"
  by (simp only: numeral_eq_Suc upt_0_Suc)

lemma crc8_bit_numeral:
  "crc8_bit (numeral k) =
     (if numeral k AND (0x80 :: byte) \<noteq> 0 then push_bit 1 (numeral k) XOR 0x07
      else push_bit 1 (numeral k))"
  "crc8_bit 0 = 0" "crc8_bit 1 = 2"
  by (simp_all add: crc8_bit_def)

lemmas const_defs = PREFS_MAGIC_def PREFS_VERSION_def BLOCK_STATUS_EMPTY_def
  BLOCK_STATUS_ACTIVE_def BLOCK_STATUS_VALID_def GLOBAL_HEADER_SIZE_def BLOCK_HEADER_SIZE_def
  ENTRY_HEADER_SIZE_def

lemmas eval_rules = const_defs
  readGlobalHeader_def writeGlobalHeader_def readBlockHeader_def writeBlockHeader_def
  i2c_read_bytes_numeral i2c_read_bytes_1 i2c_write_byte_def decode_global_def decode_block_def
  decode_entry_def block_crc_data_def global_fields_def calculateCrc8_def crc8_bit_numeral
  crc8_shift_8 getBlockAddress_def demoteActiveBlock_def newActiveBlockHeader_def padding_def
  drop_padding_def lo8_def hi8_def u16_def read_entry_header_def upt_0_numeral upt_0_Suc
  hashKey_def cstr_def strlen_def push_bit_eq_mult Let_def

definition mem_of_image :: "byte list \<Rightarrow> nat \<Rightarrow> byte" where
  "mem_of_image img a = (if a < length img then img ! a else 0xFF)"

definition demo_image :: "byte list" where
  "demo_image =
     [0xA5, 1, 2, 0, 0, 0, 108, 0,
      1, 0, 19, 0, 3, 0,
      1, 6, 29, 182, 1, 0, 4, 0, 0x78, 1, 0, 0, 0,
      0xFF, 0xFF, 0xFF, 0xFF, 0xFF, 0xFF, 0xFF, 0xFF, 0xFF, 0xFF, 0xFF, 0xFF, 0xFF,
      0, 0, 6, 0, 126, 0,
      0xFF, 0xFF, 0xFF, 0xFF, 0xFF, 0xFF, 0xFF, 0xFF, 0xFF, 0xFF, 0xFF, 0xFF, 0xFF,
      0xFF, 0xFF, 0xFF, 0xFF, 0xFF, 0xFF, 0xFF, 0xFF, 0xFF, 0xFF, 0xFF, 0xFF, 0xFF]"

definition demo :: prefs where
  "demo = \<lparr> mem = mem_of_image demo_image, wlog = [], junk = (\<lambda>_. 0), deviceAck = True,
            isInitialized = True, totalMemoryBytes = 72, blockSizeBytes = 32,
            maxKeyLength = 4, maxValueLength = 8, totalBlocks = 2, activeBlockIndex = 0 \<rparr>"

lemmas demo_defs = demo_def mem_of_image_def demo_image_def

lemma demo_block0: "readBlockHeader demo 0 = (True, \<lparr>bh_status = 1, bh_currentOffset = 19, bh_checksum = 3\<rparr>)"
  by (simp add: eval_rules demo_defs cong: let_weak_cong)

lemma demo_find_x: "findEntry demo [0x78] = Some (14, 23, 4, 6)"
  by (simp add: findEntry_def findInBlock.simps eval_rules demo_defs cong: let_weak_cong del: upt_Suc)

lemma demo_find_y: "findEntry demo [0x79] = Some not_found"
  by (simp add: findEntry_def findInBlock.simps eval_rules demo_defs cong: let_weak_cong del: upt_Suc)





lemma le_bytes_numeral:
  "le_bytes (numeral k) x = of_nat (x mod 256) # le_bytes (pred_numeral k) (x div 256)"
  by (simp only: numeral_eq_Suc [of k] le_bytes.simps)

lemmas api_defs = begin_prefs_def begin_gc_def clear_def runGarbageCollection_def gcPrepare_def
  gcFinalize_def gcCopyBlock.simps findInBlock.simps findEntry_def writeEntry_def appendEntry_def
  entry_header_bytes_def markEntryAsDeleted_def putValue_def getValue_def remove_key_def
  isKey_def putComplexValue_def getComplexValue_def putString_def getString_def
  le_bytes_numeral I2CMiniPrefs_def not_found_def

lemmas eval_cong = let_weak_cong prod.case_cong_weak option.case_cong_weak

text \<open>The loop of \<^verbatim>\<open>_runGarbageCollection\<close> over the blocks, one iteration at a time.\<close>

lemma gcCopyBlocks_Cons_eval:
  "gcCopyBlocks s t w (i # rest) =
     (if i = t then gcCopyBlocks s t w rest
      else (let r = readBlockHeader s i
         in if \<not> fst r then gcCopyBlocks s t w rest
            else if bh_status (snd r) \<noteq> BLOCK_STATUS_ACTIVE \<and> bh_status (snd r) \<noteq> BLOCK_STATUS_VALID
            then gcCopyBlocks s t w rest
            else (let c = gcCopyBlock s (getBlockAddress s t) (getBlockAddress s i)
                            (bh_currentOffset (snd r)) BLOCK_HEADER_SIZE w
               in case c of None \<Rightarrow> None
                  | Some x \<Rightarrow> if \<not> fst x then Some (False, snd x)
                      else (let s2 = snd (writeBlockHeader (fst (snd x)) i
                                ((snd r)\<lparr> bh_status := BLOCK_STATUS_EMPTY,
                                          bh_currentOffset := BLOCK_HEADER_SIZE \<rparr>));
                                w2 = snd (snd x)
                            in gcCopyBlocks s2 t w2 rest))))"
  by (auto simp: Let_def split: prod.splits option.splits)

lemma demo_clear: "\<exists>s'. clear demo = Some (True, s')"
  by (simp add: clear_def runGarbageCollection_def gcPrepare_def gcFinalize_def gcCopyBlock.simps
      eval_rules demo_defs cong: eval_cong del: upt_Suc)

subsection \<open>Lookup on a store that is not initialized\<close>

lemma findEntry_uninitialized: "\<not> isInitialized s \<Longrightarrow> findEntry s key = Some not_found"
  by (simp add: findEntry_def)

lemma writeEntry_uninitialized: "\<not> isInitialized s \<Longrightarrow> writeEntry s key type buf = Some (False, s)"
  by (simp add: writeEntry_def)

lemma clear_uninitialized:
  assumes "clear s = Some (ok, s')"
  shows "\<not> isInitialized s'"
proof -
  from assms have "same_cfg (s\<lparr> isInitialized := False, activeBlockIndex := 0 \<rparr>) s'"
    unfolding clear_def Let_def by (rule same_cfg_runGarbageCollection)
  then show ?thesis by (simp add: same_cfg_def)
qed

text \<open>
  C7. After \<^verbatim>\<open>clear()\<close> has returned, the store is not marked initialized. In that state
  every typed put returns false, every typed get returns the caller's default,
  \<^verbatim>\<open>isKey\<close> and \<^verbatim>\<open>remove\<close> return false, and none of these calls changes the state, so
  the store stays like this until \<^verbatim>\<open>begin()\<close> is called; a further \<^verbatim>\<open>clear()\<close> leaves it
  uninitialized as well.
\<close>

theorem clear_leaves_store_uninitialized:
  assumes "clear s = Some (ok, s')"
  shows "\<not> isInitialized s' \<and>
         putValue s' key v = Some (False, s') \<and>
         putString s' key str = Some (False, s') \<and>
         getValue s' key d = Some d \<and>
         getString s' key dstr = Some (cstr dstr) \<and>
         isKey s' key = Some False \<and>
         remove_key s' key = Some (False, s') \<and>
         (\<forall>ok2 s2. clear s' = Some (ok2, s2) \<longrightarrow> \<not> isInitialized s2)"
proof -
  have u: "\<not> isInitialized s'" using assms by (rule clear_uninitialized)
  have f: "findEntry s' k = Some not_found" for k
    using u by (rule findEntry_uninitialized)
  show ?thesis
    using u
    by (auto simp: putValue_def putString_def putComplexValue_def writeEntry_uninitialized
          getValue_def getString_def getComplexValue_def isKey_def remove_key_def f not_found_def
          dest: clear_uninitialized)
qed

theorem clear_leaves_store_uninitialized_witness:
  "\<exists>ok s'. clear demo = Some (ok, s') \<and> \<not> isInitialized s' \<and>
      putValue s' [0x78] (VInt 2) = Some (False, s') \<and>
      getValue s' [0x78] (VInt 7) = Some (VInt 7) \<and>
      isKey s' [0x78] = Some False"
proof -
  from demo_clear obtain s' where c: "clear demo = Some (True, s')" by blast
  from clear_leaves_store_uninitialized [OF c, of "[0x78]" "VInt 2" "[]" "VInt 7" "[]"] c
  show ?thesis by blast
qed

subsection \<open>Typed reads of an entry of another type\<close>

text \<open>
  C6. When the entry that the lookup finds for a key carries a type tag different from
  the one of the requested type, or a value length different from the size of that
  type, the scalar getters return the caller's default; \<^verbatim>\<open>getString\<close> returns the
  default string when the tag is not the string tag.
\<close>

theorem typed_get_mismatch_yields_default:
  assumes "findEntry s key = Some (entryAddr, valueAddr, valueLen, storedType)"
  shows "(storedType \<noteq> type_code (tag_of d) \<or> valueLen \<noteq> sizeof d \<longrightarrow>
            getValue s key d = Some d) \<and>
         (storedType \<noteq> type_code TYPE_STRING \<longrightarrow> getString s key dstr = Some (cstr dstr))"
  using assms by (auto simp: getValue_def getString_def getComplexValue_def)

theorem typed_get_mismatch_yields_default_witness:
  "findEntry demo [0x78] = Some (14, 23, 4, 6) \<and>
   getValue demo [0x78] (VBool True) = Some (VBool True) \<and>
   getValue demo [0x78] (VLong64 5) = Some (VLong64 5) \<and>
   getString demo [0x78] [0x41] = Some [0x41]"
  using typed_get_mismatch_yields_default [OF demo_find_x, of "VBool True" "[0x41]"]
    typed_get_mismatch_yields_default [OF demo_find_x, of "VLong64 5" "[0x41]"] demo_find_x
  by (simp add: cstr_def)

subsection \<open>Tombstoning\<close>



subsection \<open>Writing an entry after a garbage collection\<close>

text \<open>
  C3. The claim is that \<^verbatim>\<open>_writeEntry\<close>, after a garbage collection, checks again that the
  entry fits into the new active block and fails without writing beyond the block size.
  The code reads the block header again after the collection and tests its status only.
  On a device that reads 0xFF everywhere, configured with 832 bits, blocks of 32 bytes,
  keys of at most 4 and values of at most 8 bytes, \<^verbatim>\<open>begin()\<close> gives three blocks. Two
  puts of an \<^verbatim>\<open>int\<close> fill block 0 up to offset 32. The third put starts a collection that
  copies both live entries into block 1, which is full again. The put returns true all
  the same: the 13 bytes of the entry go to the addresses 72..84, behind the end of
  block 1 (addresses 40..71) and inside block 2, and the header of block 1 records the
  offset 45 in a block of 32 bytes.
\<close>

theorem writeEntry_after_gc_writes_beyond_block:
  "(let r0 = begin_prefs (I2CMiniPrefs (\<lambda>_. 0xFF) (\<lambda>_. 0) True 832 32 4 8);
        s0 = snd (the r0);
        r1 = putValue s0 [0x61] (VInt 1);
        s1 = snd (the r1);
        r2 = putValue s1 [0x62] (VInt 2);
        s2 = snd (the r2);
        r3 = putValue s2 [0x63] (VInt 3);
        s3 = snd (the r3)
    in map (map_option fst) [r0, r1, r2, r3] = [Some True, Some True, Some True, Some True] \<and>
       totalBlocks s0 = 3 \<and>
       activeBlockIndex s2 = 0 \<and>
       readBlockHeader s2 0 = (True, \<lparr>bh_status = 1, bh_currentOffset = 32, bh_checksum = 197\<rparr>) \<and>
       activeBlockIndex s3 = 1 \<and>
       getBlockAddress s3 1 = 40 \<and>
       blockSizeBytes s3 = 32 \<and>
       getBlockAddress s3 2 = 72 \<and>
       bh_currentOffset (snd (readBlockHeader s3 1)) = 45 \<and>
       i2c_read_bytes s2 72 13 =
         [0xFF, 0xFF, 0xFF, 0xFF, 0xFF, 0xFF, 0xFF, 0xFF, 0xFF, 0xFF, 0xFF, 0xFF, 0xFF] \<and>
       i2c_read_bytes s3 72 13 = [1, 6, 0x08, 0xB6, 1, 0, 4, 0, 0x63, 3, 0, 0, 0])"
  by (simp add: gcCopyBlocks_Cons_eval api_defs eval_rules cong: eval_cong
      del: upt_Suc gcCopyBlocks.simps(2))

end
